theory Spec2Isabelle
  imports Complex_Main "HOL-Library.Word" "HOL-Library.AList" "HOL-Library.Multiset"
    "HOL-Library.Option_ord"
begin

section \<open>JavaScript strings and JSON values\<close>

text \<open>
  A JavaScript string is a sequence of UTF-16 code units: \<open>substring\<close>, \<open>includes\<close> and the
  regular expression class \<open>[\s\S]\<close> all count code units. A literal of the source is written
  \<open>js ''...''\<close>.
\<close>

type_synonym code_unit = "16 word"
type_synonym js_string = "code_unit list"

abbreviation js :: "string \<Rightarrow> js_string" where
  "js s \<equiv> map of_char s"

text \<open>
  The values \<open>JSON.parse\<close> produces. A number is kept as the exact value of its decimal
  literal (JavaScript rounds it to the nearest double, which is not modelled). An object is
  the list of its own properties; \<open>JSON.parse\<close> lets a repeated key overwrite the earlier
  value in place.
\<close>

datatype json =
    JNull
  | JBool bool
  | JNumber rat
  | JString js_string
  | JArray "json list"
  | JObject "(js_string \<times> json) list"

text \<open>Property access \<open>obj.name\<close>: \<open>None\<close> is JavaScript's \<open>undefined\<close>.\<close>

fun property :: "json \<Rightarrow> string \<Rightarrow> json option" where
  "property (JObject ms) name = map_of ms (js name)"
| "property _ name = None"

section \<open>\<open>JSON.parse\<close>\<close>

subsection \<open>Tokens\<close>

datatype token =
    TLBrace | TRBrace | TLBracket | TRBracket | TColon | TComma
  | TString js_string | TNumber rat | TTrue | TFalse | TNull

definition is_ws :: "code_unit \<Rightarrow> bool" where
  "is_ws c = (c = 0x20 \<or> c = 0x09 \<or> c = 0x0A \<or> c = 0x0D)"

definition is_digit :: "code_unit \<Rightarrow> bool" where
  "is_digit c = (0x30 \<le> c \<and> c \<le> 0x39)"

definition digit_val :: "code_unit \<Rightarrow> nat" where
  "digit_val c = unat c - 0x30"

definition digits_val :: "js_string \<Rightarrow> nat" where
  "digits_val ds = foldl (\<lambda>a d. 10 * a + digit_val d) 0 ds"

definition hex_val :: "code_unit \<Rightarrow> nat option" where
  "hex_val c =
     (if 0x30 \<le> c \<and> c \<le> 0x39 then Some (unat c - 0x30)
      else if 0x41 \<le> c \<and> c \<le> 0x46 then Some (unat c - 0x41 + 10)
      else if 0x61 \<le> c \<and> c \<le> 0x66 then Some (unat c - 0x61 + 10)
      else None)"

text \<open>
  The characters a number or one of the literals \<open>true\<close>, \<open>false\<close>, \<open>null\<close> is made of. In
  JSON such a token is always followed by white space, a structural character or the end
  of the text, so the lexer collects the longest run of these characters and then checks
  the run against the grammar.
\<close>

definition is_word_char :: "code_unit \<Rightarrow> bool" where
  "is_word_char c =
     (is_digit c \<or> (0x41 \<le> c \<and> c \<le> 0x5A) \<or> (0x61 \<le> c \<and> c \<le> 0x7A)
      \<or> c = 0x2B \<or> c = 0x2D \<or> c = 0x2E)"

text \<open>
  The JSON number grammar: \<open>-? (0 | [1-9][0-9]*) (. [0-9]+)? ([eE] [+-]? [0-9]+)?\<close>.
\<close>

definition exponent_part :: "js_string \<Rightarrow> int option" where
  "exponent_part s =
     (case s of
        [] \<Rightarrow> Some 0
      | c # r \<Rightarrow>
          if c = 0x65 \<or> c = 0x45 then
            (let neg = (r \<noteq> [] \<and> hd r = 0x2D);
                 ds = (if r \<noteq> [] \<and> (hd r = 0x2D \<or> hd r = 0x2B) then tl r else r)
             in if ds \<noteq> [] \<and> list_all is_digit ds
                then Some (if neg then - int (digits_val ds) else int (digits_val ds))
                else None)
          else None)"

definition fraction_part :: "js_string \<Rightarrow> (js_string \<times> js_string) option" where
  "fraction_part s =
     (case s of
        [] \<Rightarrow> Some ([], [])
      | c # r \<Rightarrow>
          if c = 0x2E then
            (let fs = takeWhile is_digit r
             in if fs = [] then None else Some (fs, dropWhile is_digit r))
          else Some ([], s))"

definition scale10 :: "rat \<Rightarrow> int \<Rightarrow> rat" where
  "scale10 x e = (if 0 \<le> e then x * 10 ^ nat e else x / 10 ^ nat (- e))"

definition number_value :: "js_string \<Rightarrow> rat option" where
  "number_value s =
     (let neg = (s \<noteq> [] \<and> hd s = 0x2D);
          u = (if neg then tl s else s);
          is = takeWhile is_digit u
      in if is = [] \<or> (length is > 1 \<and> hd is = 0x30) then None
         else
           (case fraction_part (dropWhile is_digit u) of
              None \<Rightarrow> None
            | Some (fs, r) \<Rightarrow>
                (case exponent_part r of
                   None \<Rightarrow> None
                 | Some e \<Rightarrow>
                     (let m = of_nat (digits_val is) + of_nat (digits_val fs) / 10 ^ length fs
                      in Some (scale10 (if neg then - m else m) e)))))"

definition word_token :: "js_string \<Rightarrow> token option" where
  "word_token w =
     (if w = js ''true'' then Some TTrue
      else if w = js ''false'' then Some TFalse
      else if w = js ''null'' then Some TNull
      else map_option TNumber (number_value w))"

subsection \<open>The lexer\<close>

text \<open>
  The lexer reads one code unit at a time. The accumulated characters of a string or a
  word are kept in reverse.
\<close>

datatype lex_state =
    LDefault
  | LWord js_string
  | LString js_string
  | LEscape js_string
  | LUnicode js_string "nat list"

definition lex_default :: "code_unit \<Rightarrow> (lex_state \<times> token list) option" where
  "lex_default c =
     (if is_ws c then Some (LDefault, [])
      else if c = 0x7B then Some (LDefault, [TLBrace])
      else if c = 0x7D then Some (LDefault, [TRBrace])
      else if c = 0x5B then Some (LDefault, [TLBracket])
      else if c = 0x5D then Some (LDefault, [TRBracket])
      else if c = 0x3A then Some (LDefault, [TColon])
      else if c = 0x2C then Some (LDefault, [TComma])
      else if c = 0x22 then Some (LString [], [])
      else if is_word_char c then Some (LWord [c], [])
      else None)"

definition escape_char :: "code_unit \<Rightarrow> code_unit option" where
  "escape_char c =
     (if c = 0x22 \<or> c = 0x5C \<or> c = 0x2F then Some c
      else if c = 0x62 then Some 0x08
      else if c = 0x66 then Some 0x0C
      else if c = 0x6E then Some 0x0A
      else if c = 0x72 then Some 0x0D
      else if c = 0x74 then Some 0x09
      else None)"

fun lex_step :: "lex_state \<Rightarrow> code_unit \<Rightarrow> (lex_state \<times> token list) option" where
  "lex_step LDefault c = lex_default c"
| "lex_step (LWord acc) c =
     (if is_word_char c then Some (LWord (c # acc), [])
      else
        (case word_token (rev acc) of
           None \<Rightarrow> None
         | Some t \<Rightarrow>
             (case lex_default c of
                None \<Rightarrow> None
              | Some (st, ts) \<Rightarrow> Some (st, t # ts))))"
| "lex_step (LString acc) c =
     (if c = 0x22 then Some (LDefault, [TString (rev acc)])
      else if c = 0x5C then Some (LEscape acc, [])
      else if c < 0x20 then None
      else Some (LString (c # acc), []))"
| "lex_step (LEscape acc) c =
     (if c = 0x75 then Some (LUnicode acc [], [])
      else
        (case escape_char c of
           None \<Rightarrow> None
         | Some e \<Rightarrow> Some (LString (e # acc), [])))"
| "lex_step (LUnicode acc ds) c =
     (case hex_val c of
        None \<Rightarrow> None
      | Some d \<Rightarrow>
          if length ds = 3
          then Some (LString (of_nat (foldl (\<lambda>a h. 16 * a + h) 0 (ds @ [d])) # acc), [])
          else Some (LUnicode acc (ds @ [d]), []))"

fun lex_end :: "lex_state \<Rightarrow> token list option" where
  "lex_end LDefault = Some []"
| "lex_end (LWord acc) = map_option (\<lambda>t. [t]) (word_token (rev acc))"
| "lex_end _ = None"

fun lex :: "lex_state \<Rightarrow> js_string \<Rightarrow> token list option" where
  "lex st [] = lex_end st"
| "lex st (c # cs) =
     (case lex_step st c of
        None \<Rightarrow> None
      | Some (st', ts) \<Rightarrow> map_option (\<lambda>r. ts @ r) (lex st' cs))"

subsection \<open>The parser\<close>

text \<open>
  A pushdown parser of the JSON grammar. The stack holds the containers that are still
  open: an array with its elements so far, an object with its members so far, or an
  object that has read a key and a colon and awaits the value.
\<close>

datatype frame =
    InArray "json list"
  | InObject "(js_string \<times> json) list"
  | InMember "(js_string \<times> json) list" js_string

datatype parse_state =
    PValue | PFirstElem | PFirstKey | PKey | PColon | PNext | PDone json

fun reduce :: "json \<Rightarrow> frame list \<Rightarrow> (parse_state \<times> frame list) option" where
  "reduce v [] = Some (PDone v, [])"
| "reduce v (InArray es # st) = Some (PNext, InArray (es @ [v]) # st)"
| "reduce v (InMember ms k # st) = Some (PNext, InObject (AList.update k v ms) # st)"
| "reduce v (InObject ms # st) = None"

fun scalar :: "token \<Rightarrow> json option" where
  "scalar (TString s) = Some (JString s)"
| "scalar (TNumber n) = Some (JNumber n)"
| "scalar TTrue = Some (JBool True)"
| "scalar TFalse = Some (JBool False)"
| "scalar TNull = Some JNull"
| "scalar _ = None"

fun parse_value :: "token \<Rightarrow> frame list \<Rightarrow> (parse_state \<times> frame list) option" where
  "parse_value TLBracket st = Some (PFirstElem, InArray [] # st)"
| "parse_value TLBrace st = Some (PFirstKey, InObject [] # st)"
| "parse_value t st = (case scalar t of None \<Rightarrow> None | Some v \<Rightarrow> reduce v st)"

fun parse_key :: "token \<Rightarrow> frame list \<Rightarrow> (parse_state \<times> frame list) option" where
  "parse_key (TString k) (InObject ms # st) = Some (PColon, InMember ms k # st)"
| "parse_key _ _ = None"

fun parse_step :: "parse_state \<Rightarrow> frame list \<Rightarrow> token \<Rightarrow> (parse_state \<times> frame list) option" where
  "parse_step PValue st t = parse_value t st"
| "parse_step PFirstElem (InArray es # st) TRBracket = reduce (JArray es) st"
| "parse_step PFirstElem st t = parse_value t st"
| "parse_step PFirstKey (InObject ms # st) TRBrace = reduce (JObject ms) st"
| "parse_step PFirstKey st t = parse_key t st"
| "parse_step PKey st t = parse_key t st"
| "parse_step PColon st TColon = Some (PValue, st)"
| "parse_step PColon st _ = None"
| "parse_step PNext (InArray es # st) TComma = Some (PValue, InArray es # st)"
| "parse_step PNext (InObject ms # st) TComma = Some (PKey, InObject ms # st)"
| "parse_step PNext (InArray es # st) TRBracket = reduce (JArray es) st"
| "parse_step PNext (InObject ms # st) TRBrace = reduce (JObject ms) st"
| "parse_step PNext _ _ = None"
| "parse_step (PDone v) st t = None"

fun parse_tokens :: "parse_state \<Rightarrow> frame list \<Rightarrow> token list \<Rightarrow> json option" where
  "parse_tokens (PDone v) st [] = Some v"
| "parse_tokens _ st [] = None"
| "parse_tokens ps st (t # ts) =
     (case parse_step ps st t of
        None \<Rightarrow> None
      | Some (ps', st') \<Rightarrow> parse_tokens ps' st' ts)"

text \<open>\<open>JSON.parse(s)\<close>; \<open>None\<close> is the \<open>SyntaxError\<close> it throws.\<close>

definition JSON_parse :: "js_string \<Rightarrow> json option" where
  "JSON_parse s =
     (case lex LDefault s of
        None \<Rightarrow> None
      | Some ts \<Rightarrow> parse_tokens PValue [] ts)"

section \<open>The server: \<open>server/index.js\<close>\<close>

subsection \<open>Reading the AI response (lines 126 to 143)\<close>

text \<open>
  \<open>text.match(/\{[\s\S]*\}/)\<close>: the match starts at the first \<open>{\<close> of the text and, the
  star being greedy, ends at the last \<open>}\<close> after it; there is no match when no \<open>}\<close> follows
  the first \<open>{\<close>. The result is \<open>jsonMatch[0]\<close>, or \<open>None\<close> for \<open>null\<close>.
\<close>

definition jsonMatch :: "js_string \<Rightarrow> js_string option" where
  "jsonMatch text =
     (let from_brace = dropWhile (\<lambda>c. c \<noteq> 0x7B) text;
          matched = rev (dropWhile (\<lambda>c. c \<noteq> 0x7D) (rev from_brace))
      in if matched = [] then None else Some matched)"

text \<open>The object literal of the \<open>catch (parseError)\<close> block.\<close>

definition fallback_result :: "js_string \<Rightarrow> json" where
  "fallback_result text =
     JObject
       [(js ''diagnosis'', JString (take 200 text @ js ''...'')),
        (js ''advice'', JString (js
           ''Please consult with a local agricultural expert for detailed treatment recommendations.'')),
        (js ''severity'', JString (js ''medium'')),
        (js ''confidence'', JNumber (75 / 100))]"

text \<open>
  The value of the variable \<open>analysisResult\<close> after the inner \<open>try\<close>/\<open>catch\<close>: the parsed
  match as it is, or the fallback when there is no match or \<open>JSON.parse\<close> throws.
\<close>

definition analysisResult :: "js_string \<Rightarrow> json" where
  "analysisResult text =
     (case jsonMatch text of
        None \<Rightarrow> fallback_result text
      | Some matched \<Rightarrow>
          (case JSON_parse matched of
             None \<Rightarrow> fallback_result text
           | Some v \<Rightarrow> v))"

text \<open>Structured parsing fails: the \<open>catch (parseError)\<close> block runs.\<close>

definition parse_fails :: "js_string \<Rightarrow> bool" where
  "parse_fails text =
     (case jsonMatch text of
        None \<Rightarrow> True
      | Some matched \<Rightarrow> JSON_parse matched = None)"

subsection \<open>The table \<open>analyses\<close>\<close>

text \<open>
  One row of the table created by \<open>initDatabase\<close>. The nullable columns are options,
  \<open>None\<close> being SQL's \<open>NULL\<close>; \<open>created_at\<close> has a default but no \<open>NOT NULL\<close>. The
  columns \<open>diagnosis\<close> and \<open>advice\<close> are \<open>TEXT\<close>, \<open>severity\<close> is \<open>VARCHAR(20)\<close> and
  \<open>confidence\<close> is \<open>DECIMAL(3,2)\<close>, a number with two decimals. Timestamps are natural
  numbers.
\<close>

record analysis_row =
  row_id :: int
  analysis_id :: js_string
  farmer_address :: js_string
  image_hash :: js_string
  diagnosis :: "js_string option"
  advice :: "js_string option"
  confidence :: "rat option"
  severity :: "js_string option"
  created_at :: "nat option"
  completed_at :: "nat option"

text \<open>A query parameter: the driver sends \<open>undefined\<close> and \<open>null\<close> as \<open>NULL\<close>.\<close>

fun sql_param :: "json option \<Rightarrow> json option" where
  "sql_param None = None"
| "sql_param (Some JNull) = None"
| "sql_param (Some v) = Some v"

text \<open>
  A parameter that is not \<open>NULL\<close> is converted by the driver and by Postgres to the type
  of the column it is assigned to: a number assigned to \<open>confidence\<close> is rounded to two
  decimals, so that 0.125 is stored as 0.13. These conversions are not code of the
  repository; they are taken as given, one function for each column type, the value the
  column holds after a statement that Postgres has accepted. A statement Postgres rejects
  (a value that does not convert, or does not fit the column) is the environment's
  \<open>query_rejected\<close>.
\<close>

record conversions =
  to_text :: "json \<Rightarrow> js_string"
  to_decimal_3_2 :: "json \<Rightarrow> rat"
  to_varchar_20 :: "json \<Rightarrow> js_string"

definition sql_column :: "(json \<Rightarrow> 'a) \<Rightarrow> json option \<Rightarrow> 'a option" where
  "sql_column convert p = map_option convert (sql_param p)"

text \<open>
  \<open>UPDATE analyses SET diagnosis = $1, advice = $2, confidence = $3, severity = $4,
  completed_at = NOW() WHERE analysis_id = $5\<close>.
\<close>

definition update_analyses :: "conversions \<Rightarrow> nat \<Rightarrow> json \<Rightarrow> js_string \<Rightarrow> analysis_row list \<Rightarrow> analysis_row list" where
  "update_analyses pg now result aid rows =
     map (\<lambda>r.
            if analysis_id r = aid
            then r\<lparr>diagnosis := sql_column (to_text pg) (property result ''diagnosis''),
                   advice := sql_column (to_text pg) (property result ''advice''),
                   confidence := sql_column (to_decimal_3_2 pg) (property result ''confidence''),
                   severity := sql_column (to_varchar_20 pg) (property result ''severity''),
                   completed_at := Some now\<rparr>
            else r)
         rows"

text \<open>
  \<open>SELECT * FROM analyses WHERE farmer_address = $1 ORDER BY created_at DESC\<close>. Postgres
  puts \<open>NULL\<close> first in a descending order, as the least key \<open>None\<close> of the sort is; rows
  with equal keys may come in any order, and the model keeps them in the order of the
  table.
\<close>

definition desc_key :: "nat option \<Rightarrow> int option" where
  "desc_key t = map_option (\<lambda>n. - int n) t"

definition select_analyses :: "js_string \<Rightarrow> analysis_row list \<Rightarrow> analysis_row list" where
  "select_analyses farmerAddress rows =
     sort_key (\<lambda>r. desc_key (created_at r))
       (filter (\<lambda>r. farmer_address r = farmerAddress) rows)"

subsection \<open>The routes\<close>

text \<open>
  The state of the server: the table and the directory \<open>uploads/\<close> of the files multer
  has stored, each path with its bytes.
\<close>

record server =
  analyses :: "analysis_row list"
  uploads :: "js_string \<rightharpoonup> 8 word list"

text \<open>\<open>req.file\<close> and the request: \<open>req.file\<close> and \<open>req.body.analysisId\<close> may be undefined.\<close>

record upload =
  path :: js_string
  mimetype :: js_string

record analyze_request =
  req_file :: "upload option"
  analysisId :: "js_string option"

text \<open>
  What the outside world does during one request: the answer of the Gemini model to the
  image bytes and the MIME type (\<open>None\<close> when \<open>generateContent\<close> or \<open>response.text()\<close>
  throws), whether \<open>pool.query\<close> rejects, the time \<open>NOW()\<close>, and the conversions of
  Postgres.
\<close>

record environment =
  generateContent :: "8 word list \<Rightarrow> js_string \<Rightarrow> js_string option"
  query_rejected :: bool
  NOW :: nat
  postgres :: conversions

text \<open>\<open>res.status(n).json(body)\<close>; \<open>res.json(body)\<close> has status 200.\<close>

datatype response = Response nat json

definition error_body :: "string \<Rightarrow> json" where
  "error_body msg = JObject [(js ''error'', JString (js msg))]"

text \<open>
  \<open>fs.unlinkSync\<close> removes the file; it throws (\<open>None\<close>) when the file does not exist. The
  file system has no other fault in this model.
\<close>

definition unlinkSync :: "js_string \<Rightarrow> server \<Rightarrow> server option" where
  "unlinkSync p sv =
     (if p \<in> dom (uploads sv) then Some (sv\<lparr>uploads := (uploads sv)(p := None)\<rparr>) else None)"

text \<open>
  The outer \<open>try\<close> block after the two checks of the request. \<open>Inl sv\<close> is an exception
  thrown when the server is in state \<open>sv\<close>; \<open>Inr (sv, result)\<close> is the normal end.
\<close>

definition analyze_try :: "environment \<Rightarrow> upload \<Rightarrow> js_string \<Rightarrow> server \<Rightarrow> server + server \<times> json" where
  "analyze_try env imageFile aid sv =
     (case uploads sv (path imageFile) of
        None \<Rightarrow> Inl sv
      | Some imageData \<Rightarrow>
          (case generateContent env imageData (mimetype imageFile) of
             None \<Rightarrow> Inl sv
           | Some text \<Rightarrow>
               (let result = analysisResult text
                in if query_rejected env then Inl sv
                   else
                     (let sv1 = sv\<lparr>analyses := update_analyses (postgres env) (NOW env) result aid (analyses sv)\<rparr>
                      in case unlinkSync (path imageFile) sv1 of
                           None \<Rightarrow> Inl sv1
                         | Some sv2 \<Rightarrow> Inr (sv2, result)))))"

text \<open>The outer \<open>catch\<close> block: a failing cleanup is logged only.\<close>

definition analyze_catch :: "upload \<Rightarrow> server \<Rightarrow> server \<times> response" where
  "analyze_catch imageFile sv =
     ((case unlinkSync (path imageFile) sv of None \<Rightarrow> sv | Some sv' \<Rightarrow> sv'),
      Response 500 (error_body ''Analysis failed. Please try again later.''))"

text \<open>\<open>POST /api/analyze\<close>. An undefined or empty \<open>analysisId\<close> is falsy.\<close>

definition post_api_analyze :: "environment \<Rightarrow> analyze_request \<Rightarrow> server \<Rightarrow> server \<times> response" where
  "post_api_analyze env req sv =
     (case req_file req of
        None \<Rightarrow> (sv, Response 400 (error_body ''No image file provided''))
      | Some imageFile \<Rightarrow>
          (case analysisId req of
             None \<Rightarrow> (sv, Response 400 (error_body ''Analysis ID is required''))
           | Some aid \<Rightarrow>
               if aid = [] then (sv, Response 400 (error_body ''Analysis ID is required''))
               else
                 (case analyze_try env imageFile aid sv of
                    Inl sv' \<Rightarrow> analyze_catch imageFile sv'
                  | Inr (sv', result) \<Rightarrow> (sv', Response 200 result))))"

text \<open>\<open>GET /api/analyses/:farmerAddress\<close>: the rows, or status 500 when the query rejects.\<close>

datatype history_response = Rows "analysis_row list" | HistoryError nat json

definition get_api_analyses :: "bool \<Rightarrow> js_string \<Rightarrow> server \<Rightarrow> history_response" where
  "get_api_analyses rejected farmerAddress sv =
     (if rejected then HistoryError 500 (error_body ''Failed to fetch analysis history'')
      else Rows (select_analyses farmerAddress (analyses sv)))"

section \<open>The client: \<open>handlePayment\<close> of \<open>PaymentHandler.tsx\<close>\<close>

text \<open>\<open>s.includes(sub)\<close>: \<open>sub\<close> occurs in \<open>s\<close>.\<close>

fun js_includes :: "js_string \<Rightarrow> js_string \<Rightarrow> bool" where
  "js_includes [] sub = (sub = [])"
| "js_includes (c # cs) sub = (take (length sub) (c # cs) = sub \<or> js_includes cs sub)"

text \<open>
  The value of \<open>returnValues.analysisId\<close> in an event, which Web3 may hand over as a string
  or as an integer, and \<open>String(analysisId)\<close>.
\<close>

datatype ledger_value = VUndefined | VString js_string | VInteger nat

fun decimal :: "nat \<Rightarrow> js_string" where
  "decimal n =
     (if n < 10 then [of_nat (48 + n)]
      else decimal (n div 10) @ [of_nat (48 + n mod 10)])"

fun String_of :: "ledger_value \<Rightarrow> js_string" where
  "String_of VUndefined = js ''undefined''"
| "String_of (VString s) = s"
| "String_of (VInteger n) = decimal n"

text \<open>
  An event of the receipt with its \<open>returnValues\<close> (\<open>None\<close> when the event has none,
  otherwise the \<open>analysisId\<close> they hold), and the receipt \<open>send\<close> resolves to: its
  transaction hash and its events by name (\<open>None\<close> when \<open>transaction.events\<close> is undefined).
\<close>

record ledger_event =
  returnValues :: "ledger_value option"

record receipt =
  receipt_transactionHash :: js_string
  receipt_events :: "(js_string \<times> ledger_event) list option"

text \<open>\<open>events?.PaymentReceived\<close>.\<close>

definition paymentEvent :: "receipt \<Rightarrow> ledger_event option" where
  "paymentEvent transaction =
     (case receipt_events transaction of
        None \<Rightarrow> None
      | Some events \<Rightarrow> map_of events (js ''PaymentReceived''))"

text \<open>
  The \<open>web3\<close> object with the contract behind it. A call that rejects gives \<open>Inl\<close> of the
  error's message. \<open>generateImageHash\<close> is the SHA-256 digest of the browser, taken as given.
\<close>

record web3 =
  isAddress :: "js_string \<Rightarrow> bool"
  generateImageHash :: "8 word list \<Rightarrow> js_string"
  analysisPrice :: "js_string + nat"
  requestAnalysis :: "js_string \<Rightarrow> js_string \<Rightarrow> nat \<Rightarrow> js_string + receipt"

text \<open>
  What the \<open>try\<close> block leaves behind: the message of the error it threw, if any, the
  transaction hash passed to \<open>setTransactionHash\<close>, and the identifiers passed to
  \<open>onPaymentSuccess\<close>.
\<close>

record attempt =
  thrown :: "js_string option"
  tx :: "js_string option"
  delivered :: "js_string list"

definition throw :: "string \<Rightarrow> js_string option \<Rightarrow> attempt" where
  "throw msg h = \<lparr>thrown = Some (js msg), tx = h, delivered = []\<rparr>"

definition handlePayment_try :: "web3 option \<Rightarrow> js_string \<Rightarrow> 8 word list option \<Rightarrow> attempt" where
  "handlePayment_try w account selectedImage =
     (case w of
        None \<Rightarrow> throw ''Missing required parameters'' None
      | Some web3 \<Rightarrow>
          (case selectedImage of
             None \<Rightarrow> throw ''Missing required parameters'' None
           | Some bytes \<Rightarrow>
               if account = [] then throw ''Missing required parameters'' None
               else if \<not> isAddress web3 account then throw ''Invalid Ethereum address'' None
               else
                 (let imageHash = generateImageHash web3 bytes
                  in case analysisPrice web3 of
                       Inl m \<Rightarrow> \<lparr>thrown = Some m, tx = None, delivered = []\<rparr>
                     | Inr price \<Rightarrow>
                         (case requestAnalysis web3 imageHash account price of
                            Inl m \<Rightarrow> \<lparr>thrown = Some m, tx = None, delivered = []\<rparr>
                          | Inr transaction \<Rightarrow>
                              (let h = Some (receipt_transactionHash transaction)
                               in case paymentEvent transaction of
                                    None \<Rightarrow>
                                      throw ''Could not retrieve analysis ID from transaction'' h
                                  | Some ev \<Rightarrow>
                                      (case returnValues ev of
                                         None \<Rightarrow>
                                           throw ''Could not retrieve analysis ID from transaction'' h
                                       | Some v \<Rightarrow>
                                           \<lparr>thrown = None, tx = h,
                                            delivered = [String_of v]\<rparr>))))))"

text \<open>The \<open>catch\<close> block: the message shown for an error with message \<open>m\<close>.\<close>

definition errorMessage :: "js_string \<Rightarrow> js_string" where
  "errorMessage m =
     (if js_includes m (js ''insufficient funds'') then js ''Insufficient ETH balance for transaction''
      else if js_includes m (js ''User denied'') then js ''Transaction was cancelled by user''
      else if js_includes m (js ''Invalid Ethereum address'')
        then js ''Please connect a valid Ethereum wallet''
      else if m \<noteq> [] then m
      else js ''Payment failed. Please try again.'')"

text \<open>
  The state of the component after \<open>handlePayment\<close> has run, with the identifiers handed to
  \<open>onPaymentSuccess\<close>.
\<close>

record payment_state =
  isProcessing :: bool
  error :: "js_string option"
  transactionHash :: "js_string option"

definition handlePayment :: "web3 option \<Rightarrow> js_string \<Rightarrow> 8 word list option \<Rightarrow> payment_state \<times> js_string list" where
  "handlePayment w account selectedImage =
     (let a = handlePayment_try w account selectedImage
      in (\<lparr>isProcessing = False,
           error = map_option errorMessage (thrown a),
           transactionHash = tx a\<rparr>,
          delivered a))"

section \<open>Sequences of operations\<close>

text \<open>
  The operations that can reach the table. \<open>handlePayment\<close> runs in the browser and talks
  to the ledger contract only: it sends the server nothing. The history route only reads.
\<close>

datatype operation =
    Pay "web3 option" js_string "8 word list option"
  | Analyze environment analyze_request
  | History bool js_string

fun step :: "operation \<Rightarrow> server \<Rightarrow> server" where
  "step (Pay w account selectedImage) sv = sv"
| "step (Analyze env req) sv = fst (post_api_analyze env req sv)"
| "step (History rejected farmerAddress) sv = sv"

fun run :: "operation list \<Rightarrow> server \<Rightarrow> server" where
  "run [] sv = sv"
| "run (x # xs) sv = run xs (step x sv)"

section \<open>Example answers of the model\<close>

text \<open>A prose answer of the model with no JSON in it, 234 characters long.\<close>

definition yellowing_report :: js_string where
  "yellowing_report = js
     ''I see some yellowing on the leaves which may indicate a nitrogen deficiency or an early fungal infection. The lower leaves show brown spots with concentric rings, and the stems look weak. Please check soil moisture and drainage first.''"

text \<open>The object of the round-trip test, as text and as value.\<close>

definition leaf_rust_json :: js_string where
  \<open>leaf_rust_json = js
     ''{"diagnosis":"leaf rust","advice":"apply fungicide","severity":"high","confidence":0.9}''\<close>

definition leaf_rust_object :: json where
  "leaf_rust_object =
     JObject
       [(js ''diagnosis'', JString (js ''leaf rust'')),
        (js ''advice'', JString (js ''apply fungicide'')),
        (js ''severity'', JString (js ''high'')),
        (js ''confidence'', JNumber 0.9)]"

text \<open>An answer whose severity and confidence are out of range.\<close>

definition out_of_range_json :: js_string where
  \<open>out_of_range_json = js
     ''{"diagnosis":"blight","advice":"prune","severity":"critical","confidence":1.5}''\<close>

section \<open>Predicates the properties are stated with\<close>

text \<open>
  The parser is inside an object: the outermost open container is an object, or the
  finished value is one.
\<close>

fun object_frame :: "frame \<Rightarrow> bool" where
  "object_frame (InArray es) = False"
| "object_frame (InObject ms) = True"
| "object_frame (InMember ms k) = True"

fun in_object :: "parse_state \<Rightarrow> frame list \<Rightarrow> bool" where
  "in_object (PDone v) st = (case v of JObject ms \<Rightarrow> True | _ \<Rightarrow> False)"
| "in_object ps st = (st \<noteq> [] \<and> object_frame (last st))"

text \<open>
  A record is pending with no result field, or it has \<open>completed_at\<close>. A record carries
  the completion of a result at a time: each result column holds the conversion of the
  result's property, or \<open>NULL\<close> for a property that is missing or null. A record has
  \<open>NULL\<close> in exactly the result columns whose property is missing or null. A request
  fails in inference or persistence: the image cannot be read, the model does not answer,
  or the query is rejected.
\<close>

definition two_states :: "analysis_row \<Rightarrow> bool" where
  "two_states r =
     (completed_at r \<noteq> None \<or>
      (diagnosis r = None \<and> advice r = None \<and> confidence r = None \<and> severity r = None))"

definition completed_with :: "conversions \<Rightarrow> nat \<Rightarrow> json \<Rightarrow> analysis_row \<Rightarrow> bool" where
  "completed_with pg now result r =
     (completed_at r = Some now \<and>
      diagnosis r = sql_column (to_text pg) (property result ''diagnosis'') \<and>
      advice r = sql_column (to_text pg) (property result ''advice'') \<and>
      confidence r = sql_column (to_decimal_3_2 pg) (property result ''confidence'') \<and>
      severity r = sql_column (to_varchar_20 pg) (property result ''severity''))"

definition null_where_missing :: "json \<Rightarrow> analysis_row \<Rightarrow> bool" where
  "null_where_missing result r =
     ((diagnosis r = None) = (sql_param (property result ''diagnosis'') = None) \<and>
      (advice r = None) = (sql_param (property result ''advice'') = None) \<and>
      (confidence r = None) = (sql_param (property result ''confidence'') = None) \<and>
      (severity r = None) = (sql_param (property result ''severity'') = None))"

definition analysis_fails :: "environment \<Rightarrow> upload \<Rightarrow> server \<Rightarrow> bool" where
  "analysis_fails env f sv =
     (uploads sv (path f) = None \<or>
      (\<exists>imageData. uploads sv (path f) = Some imageData \<and>
         generateContent env imageData (mimetype f) = None) \<or>
      query_rejected env)"

text \<open>
  The order of a history: a record without creation time may stand before any other, and
  of two records with creation times the later one stands first. A receipt carries no
  usable \<open>PaymentReceived\<close> event: the event is absent, or it has no \<open>returnValues\<close>.
\<close>

fun most_recent_first :: "nat option \<Rightarrow> nat option \<Rightarrow> bool" where
  "most_recent_first None t = True"
| "most_recent_first (Some a) None = False"
| "most_recent_first (Some a) (Some b) = (b \<le> a)"

definition no_payment_event :: "receipt \<Rightarrow> bool" where
  "no_payment_event transaction =
     (case paymentEvent transaction of
        None \<Rightarrow> True
      | Some ev \<Rightarrow> returnValues ev = None)"

section \<open>Example requests, tables and environments\<close>

text \<open>
  An uploaded image and the request that carries it with the identifier 42; a table with
  no record, and one with a pending record for 42; three behaviours of the outside world.
\<close>

definition leaf_image :: "8 word list" where
  "leaf_image = [0xFF, 0xD8, 0xFF, 0xE0]"

definition leaf_upload :: upload where
  "leaf_upload = \<lparr>path = js ''uploads/3f2a'', mimetype = js ''image/jpeg''\<rparr>"

definition request_42 :: analyze_request where
  "request_42 = \<lparr>req_file = Some leaf_upload, analysisId = Some (js ''42'')\<rparr>"

definition pending_42 :: analysis_row where
  "pending_42 =
     \<lparr>row_id = 1, analysis_id = js ''42'', farmer_address = js ''0xabc'',
      image_hash = js ''0x01'', diagnosis = None, advice = None, confidence = None,
      severity = None, created_at = Some 1000, completed_at = None\<rparr>"

definition store_without_records :: server where
  "store_without_records = \<lparr>analyses = [], uploads = [js ''uploads/3f2a'' \<mapsto> leaf_image]\<rparr>"

definition store_with_pending :: server where
  "store_with_pending = \<lparr>analyses = [pending_42], uploads = [js ''uploads/3f2a'' \<mapsto> leaf_image]\<rparr>"

text \<open>
  The conversions on the values of the examples: a string is stored as it is in a text
  column, and a number is rounded to two decimals, half away from zero, in the decimal
  column. Nothing is said of what Postgres makes of a value of another kind.
\<close>

definition numeric_3_2 :: "rat \<Rightarrow> rat" where
  "numeric_3_2 x =
     (if 0 \<le> x then of_int \<lfloor>x * 100 + 1 / 2\<rfloor> / 100
      else - (of_int \<lfloor>- x * 100 + 1 / 2\<rfloor> / 100))"

fun string_as_text :: "json \<Rightarrow> js_string" where
  "string_as_text (JString s) = s"

fun number_as_decimal :: "json \<Rightarrow> rat" where
  "number_as_decimal (JNumber x) = numeric_3_2 x"

definition example_postgres :: conversions where
  "example_postgres =
     \<lparr>to_text = string_as_text, to_decimal_3_2 = number_as_decimal,
      to_varchar_20 = string_as_text\<rparr>"

text \<open>A result whose confidence has three decimals and which has no advice.\<close>

definition one_eighth_object :: json where
  "one_eighth_object =
     JObject
       [(js ''diagnosis'', JString (js ''leaf rust'')),
        (js ''severity'', JString (js ''high'')),
        (js ''confidence'', JNumber 0.125)]"

definition leaf_rust_answer :: js_string where
  "leaf_rust_answer = js ''Here is my answer: '' @ leaf_rust_json"

definition empty_object_answer :: js_string where
  "empty_object_answer = js ''{}''"

definition gemini_leaf_rust :: environment where
  "gemini_leaf_rust =
     \<lparr>generateContent = (\<lambda>imageData mimeType. Some leaf_rust_answer),
      query_rejected = False, NOW = 2000,
      postgres = example_postgres\<rparr>"

definition gemini_empty_object :: environment where
  "gemini_empty_object =
     \<lparr>generateContent = (\<lambda>imageData mimeType. Some empty_object_answer),
      query_rejected = False, NOW = 2000,
      postgres = example_postgres\<rparr>"

definition gemini_down :: environment where
  "gemini_down =
     \<lparr>generateContent = (\<lambda>imageData mimeType. None), query_rejected = False, NOW = 2000,
      postgres = example_postgres\<rparr>"

text \<open>
  Two more records, one completed for the same owner and one pending for another owner;
  a receipt with the event and one without it, and a wallet that obtains each.
\<close>

definition completed_7 :: analysis_row where
  "completed_7 =
     \<lparr>row_id = 2, analysis_id = js ''7'', farmer_address = js ''0xabc'',
      image_hash = js ''0x02'', diagnosis = Some (js ''leaf rust''),
      advice = Some (js ''apply fungicide''), confidence = Some 0.9,
      severity = Some (js ''high''), created_at = Some 500,
      completed_at = Some 600\<rparr>"

definition pending_of_other :: analysis_row where
  "pending_of_other =
     \<lparr>row_id = 3, analysis_id = js ''8'', farmer_address = js ''0xdef'',
      image_hash = js ''0x03'', diagnosis = None, advice = None, confidence = None,
      severity = None, created_at = Some 700, completed_at = None\<rparr>"

definition receipt_with_event :: receipt where
  "receipt_with_event =
     \<lparr>receipt_transactionHash = js ''0xfeed'',
      receipt_events = Some [(js ''PaymentReceived'', \<lparr>returnValues = Some (VInteger 42)\<rparr>)]\<rparr>"

definition receipt_without_event :: receipt where
  "receipt_without_event =
     \<lparr>receipt_transactionHash = js ''0xfeed'',
      receipt_events = Some [(js ''Transfer'', \<lparr>returnValues = Some VUndefined\<rparr>)]\<rparr>"

definition paying_wallet :: web3 where
  "paying_wallet =
     \<lparr>isAddress = (\<lambda>a. length a = 42), generateImageHash = (\<lambda>bytes. js ''0x01''),
      analysisPrice = Inr 1000000000000000,
      requestAnalysis = (\<lambda>imageHash account price. Inr receipt_with_event)\<rparr>"

definition silent_wallet :: web3 where
  "silent_wallet =
     \<lparr>isAddress = (\<lambda>a. length a = 42), generateImageHash = (\<lambda>bytes. js ''0x01''),
      analysisPrice = Inr 1000000000000000,
      requestAnalysis = (\<lambda>imageHash account price. Inr receipt_without_event)\<rparr>"

definition farmer :: js_string where
  "farmer = js ''0x52908400098527886E0F7030069857D2E4169EE7''"

section \<open>Properties\<close>

subsection \<open>The fallback result\<close>

text \<open>
  C6. Whenever structured parsing of the raw text fails (no brace-delimited match, or
  \<open>JSON.parse\<close> throws on the match), the result is the fallback: the diagnosis is the
  first 200 characters of the raw text followed by \<open>...\<close>, the advice is the fixed referral
  message, the severity is \<open>medium\<close> and the confidence is 0.75.
\<close>

theorem fallback_on_parse_failure:
  "parse_fails text \<Longrightarrow>
   analysisResult text =
     JObject
       [(js ''diagnosis'', JString (take 200 text @ js ''...'')),
        (js ''advice'', JString (js
           ''Please consult with a local agricultural expert for detailed treatment recommendations.'')),
        (js ''severity'', JString (js ''medium'')),
        (js ''confidence'', JNumber 0.75)]"
  by (simp add: parse_fails_def analysisResult_def fallback_result_def split: option.splits)

theorem fallback_on_parse_failure_witness:
  "parse_fails yellowing_report \<and>
   analysisResult yellowing_report =
     JObject
       [(js ''diagnosis'', JString (js
           ''I see some yellowing on the leaves which may indicate a nitrogen deficiency or an early fungal infection. The lower leaves show brown spots with concentric rings, and the stems look weak. Please check...'')),
        (js ''advice'', JString (js
           ''Please consult with a local agricultural expert for detailed treatment recommendations.'')),
        (js ''severity'', JString (js ''medium'')),
        (js ''confidence'', JNumber 0.75)]"
proof -
  have h: "parse_fails yellowing_report"
    by (simp add: parse_fails_def jsonMatch_def yellowing_report_def)
  have t: "take 200 yellowing_report @ js ''...'' = js
     ''I see some yellowing on the leaves which may indicate a nitrogen deficiency or an early fungal infection. The lower leaves show brown spots with concentric rings, and the stems look weak. Please check...''"
    by (simp add: yellowing_report_def)
  from fallback_on_parse_failure [OF h] t h show ?thesis by simp
qed

text \<open>
  C10. When structured parsing fails on a raw text shorter than 200 characters, the
  fallback diagnosis is the whole text with \<open>...\<close> appended: the marker is added although
  nothing was cut off.
\<close>

theorem short_text_keeps_whole_text:
  "parse_fails text \<Longrightarrow> length text < 200 \<Longrightarrow>
   property (analysisResult text) ''diagnosis'' = Some (JString (text @ js ''...''))"
  by (simp add: parse_fails_def analysisResult_def fallback_result_def split: option.splits)

theorem short_text_keeps_whole_text_witness:
  "parse_fails (js ''rust on {leaf}'') \<and> length (js ''rust on {leaf}'') < 200 \<and>
   property (analysisResult (js ''rust on {leaf}'')) ''diagnosis'' =
     Some (JString (js ''rust on {leaf}...''))"
proof -
  have h: "parse_fails (js ''rust on {leaf}'')"
    by code_simp
  have l: "length (js ''rust on {leaf}'') < 200"
    by simp
  from short_text_keeps_whole_text [OF h l] h show ?thesis by simp
qed

subsection \<open>Extracting and parsing the JSON object\<close>

lemma jsonMatch_embedded:
  assumes "s \<noteq> []" "hd s = 0x7B" "last s = 0x7D"
    and "0x7B \<notin> set before" "0x7D \<notin> set after"
  shows "jsonMatch (before @ s @ after) = Some s"
proof -
  have p: "\<And>x. x \<in> set before \<Longrightarrow> x \<noteq> 0x7B"
    using assms(4) by auto
  have q: "\<And>x. x \<in> set (rev after) \<Longrightarrow> x \<noteq> 0x7D"
    using assms(5) by auto
  have "dropWhile (\<lambda>c. c \<noteq> 0x7B) (before @ s @ after) = dropWhile (\<lambda>c. c \<noteq> 0x7B) (s @ after)"
    using p by (rule dropWhile_append2)
  also have "\<dots> = s @ after"
    using assms(1,2) by (cases s) auto
  finally have a: "dropWhile (\<lambda>c. c \<noteq> 0x7B) (before @ s @ after) = s @ after" .
  have "dropWhile (\<lambda>c. c \<noteq> 0x7D) (rev after @ rev s) = dropWhile (\<lambda>c. c \<noteq> 0x7D) (rev s)"
    using q by (rule dropWhile_append2)
  also have "\<dots> = rev s"
    using assms(1,3) by (simp add: dropWhile_eq_self_iff hd_rev)
  finally have b: "rev (dropWhile (\<lambda>c. c \<noteq> 0x7D) (rev (s @ after))) = s"
    by simp
  show ?thesis
    unfolding jsonMatch_def Let_def a b using assms(1) by simp
qed

lemma parse_leaf_rust: "JSON_parse leaf_rust_json = Some leaf_rust_object"
  by code_simp

lemma leaf_rust_shape:
  "leaf_rust_json \<noteq> [] \<and> hd leaf_rust_json = 0x7B \<and> last leaf_rust_json = 0x7D"
  by (simp add: leaf_rust_json_def)

text \<open>
  C5, as stated, fails: the match runs from the first \<open>{\<close> to the last \<open>}\<close> of the whole
  text, so prose with a brace after the object makes the match longer than the object,
  \<open>JSON.parse\<close> throws on it and the result is the fallback.
\<close>

theorem embedded_object_counterexample:
  "analysisResult (leaf_rust_json @ js '' Use a {copper} spray.'') \<noteq> leaf_rust_object"
  by code_simp

text \<open>
  C5, amended. When the prose before the object has no \<open>{\<close> and the prose after it has no
  \<open>}\<close>, the result is exactly the object.
\<close>

theorem embedded_object_is_returned:
  "0x7B \<notin> set before \<Longrightarrow> 0x7D \<notin> set after \<Longrightarrow>
   analysisResult (before @ leaf_rust_json @ after) = leaf_rust_object"
  using jsonMatch_embedded [of leaf_rust_json before after] leaf_rust_shape
  by (simp add: analysisResult_def parse_leaf_rust)

theorem embedded_object_is_returned_witness:
  "0x7B \<notin> set (js ''Here is my answer: '') \<and> 0x7D \<notin> set (js '' Hope this helps!'') \<and>
   analysisResult (js ''Here is my answer: '' @ leaf_rust_json @ js '' Hope this helps!'') =
     leaf_rust_object"
proof -
  have a: "0x7B \<notin> set (js ''Here is my answer: '')"
    by simp
  have b: "0x7D \<notin> set (js '' Hope this helps!'')"
    by simp
  from embedded_object_is_returned [OF a b] a b show ?thesis by simp
qed

text \<open>
  A match begins with \<open>{\<close>, and a text that begins with \<open>{\<close> parses to an object or not at
  all; so \<open>analysisResult\<close> is always an object and reading its properties never throws.
\<close>

lemma reduce_in_object:
  assumes "reduce v st = Some (ps', st')" and "st \<noteq> []" and "object_frame (last st)"
  shows "in_object ps' st'"
  using assms by (cases st; cases "hd st"; cases "tl st") (auto split: if_splits)

lemma parse_value_in_object:
  assumes "parse_value t st = Some (ps', st')" and "st \<noteq> []" and "object_frame (last st)"
  shows "in_object ps' st'"
  using assms
  by (cases t) (auto split: option.splits dest: reduce_in_object)

lemma parse_key_in_object:
  assumes "parse_key t st = Some (ps', st')" and "st \<noteq> []" and "object_frame (last st)"
  shows "in_object ps' st'"
  using assms
  by (cases t; cases st; cases "hd st") (auto split: if_splits)

lemma reduce_object_in_object:
  assumes "reduce (JObject ms) st = Some (ps', st')" and "st \<noteq> [] \<longrightarrow> object_frame (last st)"
  shows "in_object ps' st'"
proof (cases st)
  case Nil
  with assms(1) show ?thesis by auto
next
  case (Cons f fs)
  with assms show ?thesis by (auto dest: reduce_in_object)
qed

lemma parse_step_in_object:
  assumes "parse_step ps st t = Some (ps', st')" and "in_object ps st"
  shows "in_object ps' st'"
proof (cases ps)
  case PValue
  with assms show ?thesis by (auto dest: parse_value_in_object)
next
  case PFirstElem
  show ?thesis
  proof (cases st)
    case Nil
    with assms PFirstElem show ?thesis by simp
  next
    case (Cons f fs)
    show ?thesis
    proof (cases "\<exists>es. f = InArray es \<and> t = TRBracket")
      case True
      then obtain es where f: "f = InArray es" and t: "t = TRBracket" by blast
      from assms PFirstElem Cons f have fs: "fs \<noteq> []" "object_frame (last fs)"
        by (auto split: if_splits)
      from assms(1) PFirstElem Cons f t have "reduce (JArray es) fs = Some (ps', st')"
        by simp
      with fs show ?thesis by (auto dest: reduce_in_object)
    next
      case False
      with assms(1) PFirstElem Cons have "parse_value t st = Some (ps', st')"
        by (cases f; cases t) auto
      with assms(2) PFirstElem show ?thesis by (auto dest: parse_value_in_object)
    qed
  qed
next
  case PFirstKey
  show ?thesis
  proof (cases st)
    case Nil
    with assms PFirstKey show ?thesis by simp
  next
    case (Cons f fs)
    show ?thesis
    proof (cases "\<exists>ms. f = InObject ms \<and> t = TRBrace")
      case True
      then obtain ms where f: "f = InObject ms" and t: "t = TRBrace" by blast
      from assms(2) PFirstKey Cons have fs: "fs \<noteq> [] \<longrightarrow> object_frame (last fs)"
        by (auto split: if_splits)
      from assms(1) PFirstKey Cons f t have "reduce (JObject ms) fs = Some (ps', st')"
        by simp
      with fs show ?thesis by (rule reduce_object_in_object [rotated])
    next
      case False
      with assms(1) PFirstKey Cons have "parse_key t st = Some (ps', st')"
        by (cases f; cases t) auto
      with assms(2) PFirstKey show ?thesis by (auto dest: parse_key_in_object)
    qed
  qed
next
  case PKey
  with assms show ?thesis by (auto dest: parse_key_in_object)
next
  case PColon
  with assms show ?thesis by (cases t) auto
next
  case PNext
  show ?thesis
  proof (cases st)
    case Nil
    with assms PNext show ?thesis by simp
  next
    case (Cons f fs)
    show ?thesis
    proof (cases f)
      case (InArray es)
      from assms(2) PNext Cons InArray have fs: "fs \<noteq> []" "object_frame (last fs)"
        by (auto split: if_splits)
      from assms PNext Cons InArray fs show ?thesis
        by (cases t) (auto dest: reduce_in_object)
    next
      case (InObject ms)
      from assms(2) PNext Cons have fs: "fs \<noteq> [] \<longrightarrow> object_frame (last fs)"
        by (auto split: if_splits)
      from assms PNext Cons InObject fs show ?thesis
        by (cases t) (auto dest: reduce_object_in_object)
    next
      case (InMember ms k)
      with assms(1) PNext Cons show ?thesis by (cases t) auto
    qed
  qed
next
  case (PDone v)
  with assms(1) show ?thesis by simp
qed

lemma parse_tokens_in_object:
  "parse_tokens ps st ts = Some v \<Longrightarrow> in_object ps st \<Longrightarrow> \<exists>ms. v = JObject ms"
proof (induction ts arbitrary: ps st)
  case Nil
  then show ?case by (cases ps; cases v) auto
next
  case (Cons t ts)
  then show ?case
    by (auto split: option.splits dest: parse_step_in_object)
qed

lemma lex_brace:
  "lex LDefault (0x7B # s) = Some ts \<Longrightarrow> \<exists>ts'. ts = TLBrace # ts'"
  by (auto simp add: lex_default_def is_ws_def)

lemma JSON_parse_brace:
  assumes "JSON_parse (0x7B # s) = Some v"
  shows "\<exists>ms. v = JObject ms"
proof -
  from assms obtain ts where ts: "lex LDefault (0x7B # s) = Some ts"
    and v: "parse_tokens PValue [] ts = Some v"
    by (auto simp add: JSON_parse_def split: option.splits)
  from lex_brace [OF ts] obtain ts' where "ts = TLBrace # ts'" by blast
  with v have "parse_tokens PFirstKey [InObject []] ts' = Some v"
    by simp
  then show ?thesis
    by (rule parse_tokens_in_object) simp
qed

lemma jsonMatch_brace:
  assumes "jsonMatch text = Some m"
  shows "\<exists>s. m = 0x7B # s"
proof -
  define fb where "fb = dropWhile (\<lambda>c. c \<noteq> 0x7B) text"
  from assms have m: "m = rev (dropWhile (\<lambda>c. c \<noteq> 0x7D) (rev fb))" and ne: "m \<noteq> []"
    by (auto simp add: jsonMatch_def Let_def fb_def split: if_splits)
  have "m = take (length fb - length (takeWhile (\<lambda>c. c \<noteq> 0x7D) (rev fb))) fb"
    unfolding m by (simp add: dropWhile_eq_drop rev_drop)
  with ne have hd: "hd m = hd fb" and fbne: "fb \<noteq> []"
    by (auto simp add: hd_take)
  from fbne have "hd fb = 0x7B"
    using hd_dropWhile [of "\<lambda>c. c \<noteq> 0x7B" "text"] by (simp add: fb_def)
  with hd ne show ?thesis by (cases m) auto
qed

lemma analysisResult_object: "\<exists>ms. analysisResult text' = JObject ms"
proof (cases "jsonMatch text'")
  case None
  then show ?thesis by (simp add: analysisResult_def fallback_result_def)
next
  case (Some m)
  from jsonMatch_brace [OF Some] obtain s where m: "m = 0x7B # s"
    by blast
  show ?thesis
  proof (cases "JSON_parse m")
    case None
    with Some show ?thesis by (simp add: analysisResult_def fallback_result_def)
  next
    case (Some v)
    with m have "\<exists>ms. v = JObject ms"
      by (simp add: JSON_parse_brace)
    with Some \<open>jsonMatch text' = Some m\<close> show ?thesis
      by (simp add: analysisResult_def)
  qed
qed

text \<open>
  C2, as stated, fails: an object whose severity is \<open>critical\<close> and whose confidence is 1.5
  parses, and it is the result as it stands, not the fallback.
\<close>

theorem out_of_range_counterexample:
  "analysisResult out_of_range_json =
     JObject
       [(js ''diagnosis'', JString (js ''blight'')),
        (js ''advice'', JString (js ''prune'')),
        (js ''severity'', JString (js ''critical'')),
        (js ''confidence'', JNumber 1.5)]"
  by code_simp

text \<open>
  C2, amended. Whenever the match parses, the result is the parsed value as it is, an
  object: no field is checked against a type or a range. The fallback is for a text with
  no match or a match that does not parse (C6).
\<close>

theorem parsed_value_is_not_validated:
  assumes "jsonMatch text = Some m" and "JSON_parse m = Some v"
  shows "analysisResult text = v \<and> (\<exists>ms. v = JObject ms)"
proof
  show "analysisResult text = v"
    using assms by (simp add: analysisResult_def)
next
  from jsonMatch_brace [OF assms(1)] obtain s where "m = 0x7B # s"
    by blast
  with assms(2) show "\<exists>ms. v = JObject ms"
    by (simp add: JSON_parse_brace)
qed

theorem parsed_value_is_not_validated_witness:
  "jsonMatch out_of_range_json = Some out_of_range_json \<and>
   JSON_parse out_of_range_json =
     Some (JObject
       [(js ''diagnosis'', JString (js ''blight'')),
        (js ''advice'', JString (js ''prune'')),
        (js ''severity'', JString (js ''critical'')),
        (js ''confidence'', JNumber 1.5)]) \<and>
   analysisResult out_of_range_json =
     JObject
       [(js ''diagnosis'', JString (js ''blight'')),
        (js ''advice'', JString (js ''prune'')),
        (js ''severity'', JString (js ''critical'')),
        (js ''confidence'', JNumber 1.5)]"
proof -
  have a: "jsonMatch out_of_range_json = Some out_of_range_json"
    by code_simp
  have b: "JSON_parse out_of_range_json =
     Some (JObject
       [(js ''diagnosis'', JString (js ''blight'')),
        (js ''advice'', JString (js ''prune'')),
        (js ''severity'', JString (js ''critical'')),
        (js ''confidence'', JNumber 1.5)])"
    by code_simp
  from parsed_value_is_not_validated [OF a b] a b show ?thesis by simp
qed

subsection \<open>The analyze route and the table\<close>

lemma update_analyses_ids:
  "map analysis_id (update_analyses pg now result aid rows) = map analysis_id rows"
  by (induction rows) (simp_all add: update_analyses_def)

lemma update_analyses_unknown:
  "aid \<notin> analysis_id ` set rows \<Longrightarrow> update_analyses pg now result aid rows = rows"
  by (induction rows) (auto simp add: update_analyses_def)

lemma unlinkSync_analyses:
  "unlinkSync p sv = Some sv' \<Longrightarrow> analyses sv' = analyses sv"
  by (auto simp add: unlinkSync_def split: if_splits)

lemma unlinkSync_removes:
  "unlinkSync p sv = Some sv' \<Longrightarrow> uploads sv' p = None"
  by (auto simp add: unlinkSync_def split: if_splits)

lemma unlinkSync_None:
  "unlinkSync p sv = None \<Longrightarrow> uploads sv p = None"
  by (auto simp add: unlinkSync_def split: if_splits)

lemma analyze_catch_analyses:
  "analyses (fst (analyze_catch f sv)) = analyses sv"
  by (auto simp add: analyze_catch_def unlinkSync_def)

lemma analyze_catch_released:
  "uploads (fst (analyze_catch f sv)) (path f) = None"
  by (auto simp add: analyze_catch_def unlinkSync_def domIff)

lemma analyze_try_ids:
  "analyze_try env f aid sv = Inl sv' \<Longrightarrow> map analysis_id (analyses sv') = map analysis_id (analyses sv)"
  "analyze_try env f aid sv = Inr (sv', res) \<Longrightarrow> map analysis_id (analyses sv') = map analysis_id (analyses sv)"
  by (auto simp add: analyze_try_def Let_def unlinkSync_def update_analyses_ids
      split: option.splits if_splits)

lemma post_api_analyze_ids:
  "map analysis_id (analyses (fst (post_api_analyze env req sv))) = map analysis_id (analyses sv)"
  by (auto simp add: post_api_analyze_def analyze_catch_analyses analyze_try_ids
      split: option.splits sum.splits)

lemma step_ids: "map analysis_id (analyses (step x sv)) = map analysis_id (analyses sv)"
  by (cases x) (simp_all add: post_api_analyze_ids)

lemma run_ids: "map analysis_id (analyses (run xs sv)) = map analysis_id (analyses sv)"
  by (induction xs arbitrary: sv) (simp_all add: step_ids)

lemma result_leaf_rust:
  "analysisResult leaf_rust_answer = leaf_rust_object"
  by code_simp

lemma result_empty_object: "analysisResult empty_object_answer = JObject []"
  by code_simp

lemma post_gemini_leaf_rust:
  "post_api_analyze gemini_leaf_rust request_42 store_without_records =
     (\<lparr>analyses = [], uploads = Map.empty\<rparr>, Response 200 leaf_rust_object)"
  by (simp add: post_api_analyze_def analyze_try_def unlinkSync_def update_analyses_def
      gemini_leaf_rust_def request_42_def store_without_records_def leaf_upload_def result_leaf_rust)

text \<open>
  C3, as stated, fails: with no record for the identifier 42 in the table, the request
  does not fail with a not-found error; it answers 200 with the result.
\<close>

theorem complete_unknown_counterexample:
  "analyses store_without_records = [] \<and>
   snd (post_api_analyze gemini_leaf_rust request_42 store_without_records) =
     Response 200 leaf_rust_object"
  by (simp add: post_gemini_leaf_rust) (simp add: store_without_records_def)

text \<open>
  C3, amended. For an identifier with no pending record, the completion write does not
  fail: when the image is readable, the model answers and the query is not rejected, the
  request answers 200 with the normalized result. It never creates a record: the
  identifiers of the table are the same afterwards, and when the table has no record for
  the identifier at all, the table is unchanged.
\<close>

theorem complete_unknown_id:
  assumes "\<not> (\<exists>r \<in> set (analyses sv). analysis_id r = aid \<and> completed_at r = None)"
    and "req_file req = Some f" and "analysisId req = Some aid" and "aid \<noteq> []"
    and "uploads sv (path f) = Some imageData"
    and "generateContent env imageData (mimetype f) = Some text"
    and "\<not> query_rejected env"
  shows "snd (post_api_analyze env req sv) = Response 200 (analysisResult text) \<and>
    map analysis_id (analyses (fst (post_api_analyze env req sv))) = map analysis_id (analyses sv) \<and>
    (aid \<notin> analysis_id ` set (analyses sv) \<longrightarrow>
       analyses (fst (post_api_analyze env req sv)) = analyses sv)"
proof -
  have "post_api_analyze env req sv =
      (sv\<lparr>analyses :=
            update_analyses (postgres env) (NOW env) (analysisResult text) aid (analyses sv),
          uploads := (uploads sv)(path f := None)\<rparr>,
       Response 200 (analysisResult text))"
    using assms(2-7)
    by (simp add: post_api_analyze_def analyze_try_def unlinkSync_def Let_def domI)
  then show ?thesis
    by (simp add: update_analyses_ids update_analyses_unknown)
qed

theorem complete_unknown_id_witness:
  "\<not> (\<exists>r \<in> set (analyses store_without_records). analysis_id r = js ''42'' \<and> completed_at r = None) \<and>
   snd (post_api_analyze gemini_leaf_rust request_42 store_without_records) =
     Response 200 leaf_rust_object \<and>
   analyses (fst (post_api_analyze gemini_leaf_rust request_42 store_without_records)) = []"
proof -
  have a: "\<not> (\<exists>r \<in> set (analyses store_without_records). analysis_id r = js ''42'' \<and> completed_at r = None)"
    by (simp add: store_without_records_def)
  have b: "req_file request_42 = Some leaf_upload" "analysisId request_42 = Some (js ''42'')"
    "js ''42'' \<noteq> []"
    by (simp_all add: request_42_def)
  have c: "uploads store_without_records (path leaf_upload) = Some leaf_image"
    by (simp add: store_without_records_def leaf_upload_def)
  have d: "generateContent gemini_leaf_rust leaf_image (mimetype leaf_upload) =
      Some leaf_rust_answer"
    "\<not> query_rejected gemini_leaf_rust"
    by (simp_all add: gemini_leaf_rust_def)
  have e: "analyses store_without_records = []"
    by (simp add: store_without_records_def)
  from complete_unknown_id [OF a b c d] a show ?thesis
    by (simp add: result_leaf_rust e)
qed

lemma update_analyses_two_states:
  "list_all two_states rows \<Longrightarrow> list_all two_states (update_analyses pg now result aid rows)"
  by (induction rows) (simp_all add: update_analyses_def two_states_def)

lemma analyze_try_two_states:
  assumes "list_all two_states (analyses sv)"
  shows "analyze_try env f aid sv = Inl sv' \<Longrightarrow> list_all two_states (analyses sv')"
    and "analyze_try env f aid sv = Inr (sv', res) \<Longrightarrow> list_all two_states (analyses sv')"
  using assms update_analyses_two_states [OF assms]
  by (auto simp add: analyze_try_def Let_def unlinkSync_def split: option.splits if_splits)

lemma post_api_analyze_two_states:
  assumes "list_all two_states (analyses sv)"
  shows "list_all two_states (analyses (fst (post_api_analyze env req sv)))"
proof (cases "req_file req")
  case None
  then show ?thesis using assms by (simp add: post_api_analyze_def)
next
  case (Some f)
  show ?thesis
  proof (cases "analysisId req")
    case None
    then show ?thesis using assms Some by (simp add: post_api_analyze_def)
  next
    case (Some aid) note aid = this
    show ?thesis
    proof (cases "aid = []")
      case True
      then show ?thesis using assms \<open>req_file req = Some f\<close> aid by (simp add: post_api_analyze_def)
    next
      case False
      show ?thesis
      proof (cases "analyze_try env f aid sv")
        case (Inl sv')
        from analyze_try_two_states(1) [OF assms Inl] have "list_all two_states (analyses sv')" .
        then show ?thesis
          using \<open>req_file req = Some f\<close> aid False Inl
          by (simp add: post_api_analyze_def analyze_catch_analyses)
      next
        case (Inr p)
        obtain sv' res where p: "p = (sv', res)" by (cases p)
        from analyze_try_two_states(2) [OF assms Inr [unfolded p]] have "list_all two_states (analyses sv')" .
        then show ?thesis
          using \<open>req_file req = Some f\<close> aid False Inr p
          by (simp add: post_api_analyze_def)
      qed
    qed
  qed
qed

lemma step_two_states:
  "list_all two_states (analyses sv) \<Longrightarrow> list_all two_states (analyses (step x sv))"
  by (cases x) (simp_all add: post_api_analyze_two_states)

lemma run_two_states:
  "list_all two_states (analyses sv) \<Longrightarrow> list_all two_states (analyses (run xs sv))"
  by (induction xs arbitrary: sv) (simp_all add: step_two_states)

lemma update_analyses_row:
  assumes "r \<in> set (update_analyses pg now result aid rows)" and "analysis_id r = aid"
  shows "\<exists>r0. r =
     r0\<lparr>diagnosis := sql_column (to_text pg) (property result ''diagnosis''),
        advice := sql_column (to_text pg) (property result ''advice''),
        confidence := sql_column (to_decimal_3_2 pg) (property result ''confidence''),
        severity := sql_column (to_varchar_20 pg) (property result ''severity''),
        completed_at := Some now\<rparr>"
proof -
  from assms(1) obtain r0 where
    r: "r = (if analysis_id r0 = aid
            then r0\<lparr>diagnosis := sql_column (to_text pg) (property result ''diagnosis''),
                   advice := sql_column (to_text pg) (property result ''advice''),
                   confidence := sql_column (to_decimal_3_2 pg) (property result ''confidence''),
                   severity := sql_column (to_varchar_20 pg) (property result ''severity''),
                   completed_at := Some now\<rparr>
            else r0)"
    unfolding update_analyses_def set_map image_iff by blast
  show ?thesis
  proof (cases "analysis_id r0 = aid")
    case True
    with r show ?thesis by auto
  next
    case False
    with r assms(2) show ?thesis by simp
  qed
qed

lemma update_analyses_completed_with:
  assumes "r \<in> set (update_analyses pg now result aid rows)" and "analysis_id r = aid"
  shows "completed_with pg now result r"
  using update_analyses_row [OF assms] by (auto simp add: completed_with_def)

lemma update_analyses_null_where_missing:
  assumes "r \<in> set (update_analyses pg now result aid rows)" and "analysis_id r = aid"
  shows "null_where_missing result r"
  using update_analyses_row [OF assms]
  by (auto simp add: null_where_missing_def sql_column_def)

lemma update_one_eighth:
  "update_analyses example_postgres 2000 one_eighth_object (js ''42'') [pending_42] =
     [pending_42\<lparr>diagnosis := Some (js ''leaf rust''), confidence := Some 0.13,
        severity := Some (js ''high''), completed_at := Some 2000\<rparr>]"
  by (simp add: update_analyses_def sql_column_def example_postgres_def one_eighth_object_def
      pending_42_def numeric_3_2_def)

lemma post_gemini_empty_object:
  "analyses (fst (post_api_analyze gemini_empty_object request_42 store_with_pending)) =
     [pending_42\<lparr>completed_at := Some 2000\<rparr>]"
  by (simp add: post_api_analyze_def analyze_try_def unlinkSync_def update_analyses_def
      gemini_empty_object_def request_42_def store_with_pending_def leaf_upload_def
      result_empty_object pending_42_def sql_column_def)

text \<open>
  C4, as stated, fails: when the model answers \<open>{}\<close>, the pending record for 42 gets its
  \<open>completed_at\<close> while its diagnosis stays null.
\<close>

theorem completed_without_result_counterexample:
  "map completed_at (analyses (run [Analyze gemini_empty_object request_42] store_with_pending)) =
     [Some 2000] \<and>
   map diagnosis (analyses (run [Analyze gemini_empty_object request_42] store_with_pending)) =
     [None]"
  by (simp add: post_gemini_empty_object) (simp add: pending_42_def)

text \<open>
  C4, amended. On a table where every record is pending with its four result fields null
  or has \<open>completed_at\<close>, this stays so after any sequence of operations. The completion
  write sets \<open>completed_at\<close> and the four result fields of a record together: a field is
  null exactly when the normalized result lacks the property or holds null for it, and
  otherwise it holds what Postgres converts the property to for the type of the column
  (a confidence of 0.125 is stored as 0.13). So a completed record with a missing result
  field can be observed.
\<close>

theorem record_states_preserved:
  assumes "list_all two_states (analyses sv)"
  shows "list_all two_states (analyses (run xs sv)) \<and>
    (\<forall>r \<in> set (update_analyses pg now result aid rows).
       analysis_id r = aid \<longrightarrow> completed_with pg now result r \<and> null_where_missing result r)"
proof (intro conjI ballI impI)
  show "list_all two_states (analyses (run xs sv))"
    using assms by (rule run_two_states)
next
  fix r
  assume "r \<in> set (update_analyses pg now result aid rows)" and "analysis_id r = aid"
  then show "completed_with pg now result r"
    by (rule update_analyses_completed_with)
next
  fix r
  assume "r \<in> set (update_analyses pg now result aid rows)" and "analysis_id r = aid"
  then show "null_where_missing result r"
    by (rule update_analyses_null_where_missing)
qed

theorem record_states_preserved_witness:
  "list_all two_states (analyses store_with_pending) \<and>
   list_all two_states
     (analyses (run [Analyze gemini_empty_object request_42] store_with_pending)) \<and>
   completed_with example_postgres 2000 one_eighth_object
     (pending_42\<lparr>diagnosis := Some (js ''leaf rust''), confidence := Some 0.13,
        severity := Some (js ''high''), completed_at := Some 2000\<rparr>) \<and>
   null_where_missing one_eighth_object
     (pending_42\<lparr>diagnosis := Some (js ''leaf rust''), confidence := Some 0.13,
        severity := Some (js ''high''), completed_at := Some 2000\<rparr>)"
proof -
  have a: "list_all two_states (analyses store_with_pending)"
    by (simp add: store_with_pending_def two_states_def pending_42_def)
  have c: "analysis_id (pending_42\<lparr>diagnosis := Some (js ''leaf rust''), confidence := Some 0.13,
        severity := Some (js ''high''), completed_at := Some 2000\<rparr>) = js ''42''"
    by (simp add: pending_42_def)
  from record_states_preserved [OF a, of "[Analyze gemini_empty_object request_42]"
      example_postgres 2000 one_eighth_object "js ''42''" "[pending_42]"]
  have d: "list_all two_states
      (analyses (run [Analyze gemini_empty_object request_42] store_with_pending))"
    and e: "\<forall>r \<in> set [pending_42\<lparr>diagnosis := Some (js ''leaf rust''), confidence := Some 0.13,
          severity := Some (js ''high''), completed_at := Some 2000\<rparr>].
       analysis_id r = js ''42'' \<longrightarrow>
         completed_with example_postgres 2000 one_eighth_object r \<and>
         null_where_missing one_eighth_object r"
    unfolding update_one_eighth by (rule conjunct1, rule conjunct2)
  from e have "analysis_id (pending_42\<lparr>diagnosis := Some (js ''leaf rust''), confidence := Some 0.13,
        severity := Some (js ''high''), completed_at := Some 2000\<rparr>) = js ''42'' \<longrightarrow>
      completed_with example_postgres 2000 one_eighth_object
       (pending_42\<lparr>diagnosis := Some (js ''leaf rust''), confidence := Some 0.13,
          severity := Some (js ''high''), completed_at := Some 2000\<rparr>) \<and>
      null_where_missing one_eighth_object
       (pending_42\<lparr>diagnosis := Some (js ''leaf rust''), confidence := Some 0.13,
          severity := Some (js ''high''), completed_at := Some 2000\<rparr>)"
    by (rule bspec) simp
  from this c have "completed_with example_postgres 2000 one_eighth_object
       (pending_42\<lparr>diagnosis := Some (js ''leaf rust''), confidence := Some 0.13,
          severity := Some (js ''high''), completed_at := Some 2000\<rparr>) \<and>
      null_where_missing one_eighth_object
       (pending_42\<lparr>diagnosis := Some (js ''leaf rust''), confidence := Some 0.13,
          severity := Some (js ''high''), completed_at := Some 2000\<rparr>)"
    by (rule mp)
  with a d show ?thesis by (intro conjI) (assumption | erule conjunct1 | erule conjunct2)+
qed

text \<open>
  C7. When a request with an uploaded image and an identifier fails in inference or in
  persistence (normalization cannot fail), the answer is status 500 with an \<open>error\<close>
  body, the uploaded file is gone from the upload directory, and the table is as it was.
\<close>

theorem failure_releases_upload:
  assumes "req_file req = Some f" and "analysisId req = Some aid" and "aid \<noteq> []"
    and "analysis_fails env f sv"
  shows "snd (post_api_analyze env req sv) =
      Response 500 (error_body ''Analysis failed. Please try again later.'') \<and>
    uploads (fst (post_api_analyze env req sv)) (path f) = None \<and>
    analyses (fst (post_api_analyze env req sv)) = analyses sv"
proof -
  from assms(4) have "analyze_try env f aid sv = Inl sv"
    by (auto simp add: analysis_fails_def analyze_try_def Let_def split: option.splits)
  then have "post_api_analyze env req sv = analyze_catch f sv"
    using assms(1-3) by (simp add: post_api_analyze_def)
  then show ?thesis
    by (simp add: analyze_catch_analyses analyze_catch_released) (simp add: analyze_catch_def)
qed

theorem failure_releases_upload_witness:
  "analysis_fails gemini_down leaf_upload store_with_pending \<and>
   snd (post_api_analyze gemini_down request_42 store_with_pending) =
      Response 500 (error_body ''Analysis failed. Please try again later.'') \<and>
   uploads (fst (post_api_analyze gemini_down request_42 store_with_pending)) (js ''uploads/3f2a'') = None \<and>
   analyses (fst (post_api_analyze gemini_down request_42 store_with_pending)) = [pending_42]"
proof -
  have a: "req_file request_42 = Some leaf_upload" "analysisId request_42 = Some (js ''42'')"
    "js ''42'' \<noteq> []"
    by (simp_all add: request_42_def)
  have b: "analysis_fails gemini_down leaf_upload store_with_pending"
    by (simp add: analysis_fails_def gemini_down_def store_with_pending_def leaf_upload_def)
  have c: "path leaf_upload = js ''uploads/3f2a''" "analyses store_with_pending = [pending_42]"
    by (simp_all add: leaf_upload_def store_with_pending_def)
  from failure_releases_upload [OF a b] b c show ?thesis by simp
qed

subsection \<open>The history route\<close>

lemma desc_key_le: "desc_key a \<le> desc_key b \<Longrightarrow> most_recent_first a b"
  by (cases a; cases b) (simp_all add: desc_key_def)

lemma select_analyses_sorted:
  "sorted_wrt (\<lambda>r1 r2. most_recent_first (created_at r1) (created_at r2))
     (select_analyses farmerAddress rows)"
proof -
  have "sorted (map (\<lambda>r. desc_key (created_at r)) (select_analyses farmerAddress rows))"
    unfolding select_analyses_def by (rule sorted_sort_key)
  then have "sorted_wrt (\<lambda>r1 r2. desc_key (created_at r1) \<le> desc_key (created_at r2))
      (select_analyses farmerAddress rows)"
    by (simp add: sorted_wrt_map)
  then show ?thesis
    by (rule sorted_wrt_mono_rel [rotated]) (simp add: desc_key_le)
qed

text \<open>
  C8. For every owner address the history route answers with the rows of the query, and
  the query returns exactly the records whose \<open>farmer_address\<close> is that address, each as
  often as it is in the table, whether pending or completed, ordered most recent first by
  \<open>created_at\<close>; so no record of another owner is returned.
\<close>

theorem history_of_owner:
  "get_api_analyses False farmerAddress sv = Rows (select_analyses farmerAddress (analyses sv)) \<and>
   mset (select_analyses farmerAddress rows) =
     filter_mset (\<lambda>r. farmer_address r = farmerAddress) (mset rows) \<and>
   sorted_wrt (\<lambda>r1 r2. most_recent_first (created_at r1) (created_at r2))
     (select_analyses farmerAddress rows)"
  by (simp add: get_api_analyses_def select_analyses_sorted) (simp add: select_analyses_def)

lemma select_example:
  "select_analyses (js ''0xabc'') [completed_7, pending_of_other, pending_42] = [pending_42, completed_7]"
  by (simp add: select_analyses_def completed_7_def pending_of_other_def pending_42_def desc_key_def)

theorem history_of_owner_witness:
  "mset [pending_42, completed_7] =
     filter_mset (\<lambda>r. farmer_address r = js ''0xabc'') (mset [completed_7, pending_of_other, pending_42]) \<and>
   sorted_wrt (\<lambda>r1 r2. most_recent_first (created_at r1) (created_at r2)) [pending_42, completed_7]"
  using history_of_owner [of "js ''0xabc''" store_with_pending "[completed_7, pending_of_other, pending_42]"]
  unfolding select_example by (elim conjE) (intro conjI)

subsection \<open>The payment\<close>

lemma errorMessage_no_id:
  "errorMessage (js ''Could not retrieve analysis ID from transaction'') =
     js ''Could not retrieve analysis ID from transaction''"
  by code_simp

text \<open>
  C9. When the transaction went through and its receipt has no \<open>PaymentReceived\<close> event
  (or the event has no \<open>returnValues\<close>), \<open>handlePayment\<close> shows the error \<open>Could not
  retrieve analysis ID from transaction\<close>, which is not the generic \<open>Payment failed. Please
  try again.\<close>, and hands no identifier to the success callback.
\<close>

theorem missing_event_is_reported:
  assumes "account \<noteq> []" and "isAddress w account" and "analysisPrice w = Inr price"
    and "requestAnalysis w (generateImageHash w bytes) account price = Inr transaction"
    and "no_payment_event transaction"
  shows "handlePayment (Some w) account (Some bytes) =
      (\<lparr>isProcessing = False,
        error = Some (js ''Could not retrieve analysis ID from transaction''),
        transactionHash = Some (receipt_transactionHash transaction)\<rparr>, []) \<and>
    js ''Could not retrieve analysis ID from transaction'' \<noteq> js ''Payment failed. Please try again.''"
proof -
  have "handlePayment_try (Some w) account (Some bytes) =
      throw ''Could not retrieve analysis ID from transaction''
        (Some (receipt_transactionHash transaction))"
    using assms
    by (simp add: handlePayment_try_def no_payment_event_def Let_def split: option.splits)
  then have "handlePayment (Some w) account (Some bytes) =
      (\<lparr>isProcessing = False,
        error = Some (js ''Could not retrieve analysis ID from transaction''),
        transactionHash = Some (receipt_transactionHash transaction)\<rparr>, [])"
    unfolding handlePayment_def Let_def throw_def
    by (simp only: attempt.select_convs option.map errorMessage_no_id)
  moreover have "js ''Could not retrieve analysis ID from transaction'' \<noteq>
      js ''Payment failed. Please try again.''"
    by simp
  ultimately show ?thesis by (rule conjI)
qed

theorem missing_event_is_reported_witness:
  "no_payment_event receipt_without_event \<and>
   handlePayment (Some silent_wallet) farmer (Some leaf_image) =
      (\<lparr>isProcessing = False,
        error = Some (js ''Could not retrieve analysis ID from transaction''),
        transactionHash = Some (js ''0xfeed'')\<rparr>, [])"
proof -
  have a: "farmer \<noteq> []" "isAddress silent_wallet farmer"
    "analysisPrice silent_wallet = Inr 1000000000000000"
    "requestAnalysis silent_wallet (generateImageHash silent_wallet leaf_image) farmer
       1000000000000000 = Inr receipt_without_event"
    by (simp_all add: farmer_def silent_wallet_def)
  have b: "no_payment_event receipt_without_event"
    by (simp add: no_payment_event_def paymentEvent_def receipt_without_event_def)
  have c: "receipt_transactionHash receipt_without_event = js ''0xfeed''"
    by (simp add: receipt_without_event_def)
  from missing_event_is_reported [OF a b] b c show ?thesis by simp
qed

lemma handlePayment_paying:
  "snd (handlePayment (Some paying_wallet) farmer (Some leaf_image)) = [js ''42'']"
  by (simp add: handlePayment_def handlePayment_try_def paying_wallet_def farmer_def
      paymentEvent_def receipt_with_event_def)

text \<open>
  C1, as stated, fails: a payment that delivers the identifier 42 leaves a table without
  records as it is, and the table still has no record after the analyze request for 42
  has been answered.
\<close>

theorem payment_creates_record_counterexample:
  "snd (handlePayment (Some paying_wallet) farmer (Some leaf_image)) = [js ''42''] \<and>
   analyses (run [Pay (Some paying_wallet) farmer (Some leaf_image)] store_without_records) = [] \<and>
   analyses (run [Pay (Some paying_wallet) farmer (Some leaf_image),
                  Analyze gemini_leaf_rust request_42] store_without_records) = []"
  by (simp add: handlePayment_paying post_gemini_leaf_rust) (simp add: store_without_records_def)

text \<open>
  C1, amended. A successful payment hands its identifier to the success callback and
  changes nothing on the server; no sequence of operations creates a record, so a record
  for the identifier is in the table afterwards exactly when it was there before.
\<close>

theorem payment_creates_no_record:
  assumes "snd (handlePayment w account selectedImage) = [aid]"
  shows "step (Pay w account selectedImage) sv = sv \<and>
    map analysis_id (analyses (run xs sv)) = map analysis_id (analyses sv) \<and>
    (aid \<in> analysis_id ` set (analyses (run xs sv)) \<longleftrightarrow> aid \<in> analysis_id ` set (analyses sv))"
proof -
  have "analysis_id ` set (analyses (run xs sv)) = analysis_id ` set (analyses sv)"
    using run_ids [of xs sv] by (metis set_map)
  then show ?thesis
    by (simp add: run_ids)
qed

theorem payment_creates_no_record_witness:
  "snd (handlePayment (Some paying_wallet) farmer (Some leaf_image)) = [js ''42''] \<and>
   step (Pay (Some paying_wallet) farmer (Some leaf_image)) store_with_pending = store_with_pending \<and>
   map analysis_id (analyses (run [Pay (Some paying_wallet) farmer (Some leaf_image),
        Analyze gemini_leaf_rust request_42] store_with_pending)) =
     map analysis_id (analyses store_with_pending)"
  using payment_creates_no_record [OF handlePayment_paying,
      of store_with_pending "[Pay (Some paying_wallet) farmer (Some leaf_image),
        Analyze gemini_leaf_rust request_42]"] handlePayment_paying
  by (elim conjE) (intro conjI)

end
